theory Spec2Isabelle
  imports Complex_Main "HOL-Library.Word"
begin

section \<open>JavaScript values\<close>

text \<open>
  A JavaScript string is a sequence of 16-bit code units. \<open>js\<close> embeds an ASCII literal
  of the source (\<open>"prompt"\<close>, \<open>","\<close>) as such a sequence.
\<close>

type_synonym code_unit = "16 word"
type_synonym jsstring = "code_unit list"

definition js :: "string \<Rightarrow> jsstring" where
  "js s = map (\<lambda>c. of_nat (of_char c)) s"

text \<open>
  \<open>String.prototype.trim\<close> removes the code units of ECMAScript's WhiteSpace and
  LineTerminator productions from both ends.
\<close>

definition isWhiteSpace :: "code_unit \<Rightarrow> bool" where
  "isWhiteSpace c \<longleftrightarrow>
     c = 0x09 \<or> c = 0x0A \<or> c = 0x0B \<or> c = 0x0C \<or> c = 0x0D \<or> c = 0x20 \<or> c = 0xA0
     \<or> c = 0x1680 \<or> (0x2000 \<le> c \<and> c \<le> 0x200A) \<or> c = 0x2028 \<or> c = 0x2029
     \<or> c = 0x202F \<or> c = 0x205F \<or> c = 0x3000 \<or> c = 0xFEFF"

definition trimStart :: "jsstring \<Rightarrow> jsstring" where
  "trimStart s = dropWhile isWhiteSpace s"

definition trimEnd :: "jsstring \<Rightarrow> jsstring" where
  "trimEnd s = rev (dropWhile isWhiteSpace (rev s))"

definition trim :: "jsstring \<Rightarrow> jsstring" where
  "trim s = trimEnd (trimStart s)"

text \<open>
  \<open>s.split(",")\<close> with a separator of one code unit: the maximal separator-free pieces,
  in order; the empty string splits into one empty piece.
\<close>

fun split_on :: "code_unit \<Rightarrow> jsstring \<Rightarrow> jsstring list" where
  "split_on sep [] = [[]]"
| "split_on sep (c # cs) =
     (if c = sep then [] # split_on sep cs
      else (case split_on sep cs of [] \<Rightarrow> [[c]] | x # xs \<Rightarrow> (c # x) # xs))"

text \<open>The inverse reading, used to say what "the comma-separated elements" of a text are.\<close>

fun join_with :: "code_unit \<Rightarrow> jsstring list \<Rightarrow> jsstring" where
  "join_with sep [] = []"
| "join_with sep [x] = x"
| "join_with sep (x # y # ys) = x @ sep # join_with sep (y # ys)"

text \<open>
  \<open>parseInt(s, 10)\<close>: leading white space is skipped, one sign is read, then the longest
  run of decimal digits; no digit gives NaN (\<open>None\<close>). Whatever follows the digits is
  ignored. The result is kept as the exact integer: JavaScript rounds it to a double, which
  changes nothing below \<open>2 ^ 53\<close> and keeps every larger value larger than 20, so the
  comparisons of the handler are the same.
\<close>

definition isDigit :: "code_unit \<Rightarrow> bool" where
  "isDigit c \<longleftrightarrow> 0x30 \<le> c \<and> c \<le> 0x39"

definition digits_value :: "jsstring \<Rightarrow> int" where
  "digits_value ds = foldl (\<lambda>acc c. 10 * acc + (uint c - 48)) 0 ds"

definition parseInt :: "jsstring \<Rightarrow> int option" where
  "parseInt s =
     (let S = trimStart s;
          neg = (case S of [] \<Rightarrow> False | c # _ \<Rightarrow> c = 0x2D);
          S' = (case S of [] \<Rightarrow> [] | c # cs \<Rightarrow> if c = 0x2B \<or> c = 0x2D then cs else S);
          Z = takeWhile isDigit S'
      in if Z = [] then None
         else Some (if neg then - digits_value Z else digits_value Z))"

text \<open>
  A Number: the value of a finite double (every one is a rational; \<open>-0\<close> and \<open>+0\<close> are
  not told apart, as no operation of the handler does), the infinities and NaN.
\<close>

datatype number = NaN | NegInf | Fin rat | PosInf

text \<open>The abstract relational comparison on Numbers; \<open>None\<close> is its "undefined".\<close>

fun IsLessThan :: "number \<Rightarrow> number \<Rightarrow> bool option" where
  "IsLessThan NaN _ = None"
| "IsLessThan _ NaN = None"
| "IsLessThan PosInf _ = Some False"
| "IsLessThan _ PosInf = Some True"
| "IsLessThan _ NegInf = Some False"
| "IsLessThan NegInf _ = Some True"
| "IsLessThan (Fin a) (Fin b) = Some (a < b)"

definition js_gt :: "number \<Rightarrow> number \<Rightarrow> bool" where
  "js_gt a b \<longleftrightarrow> IsLessThan b a = Some True"

definition js_le :: "number \<Rightarrow> number \<Rightarrow> bool" where
  "js_le a b \<longleftrightarrow> IsLessThan b a = Some False"

text \<open>
  What \<open>request.json()\<close> can yield. A property that is absent reads as \<open>undefined\<close>,
  modelled by \<open>None\<close> of \<open>json option\<close>.
\<close>

datatype json =
    JNull
  | JBool bool
  | JNum number
  | JStr jsstring
  | JArr "json list"
  | JObj "(jsstring \<times> json) list"

datatype thrown = TypeError | Raised string

fun ToBoolean :: "json \<Rightarrow> bool" where
  "ToBoolean JNull = False"
| "ToBoolean (JBool b) = b"
| "ToBoolean (JNum n) = (n \<noteq> NaN \<and> n \<noteq> Fin 0)"
| "ToBoolean (JStr s) = (s \<noteq> [])"
| "ToBoolean (JArr _) = True"
| "ToBoolean (JObj _) = True"

definition truthy :: "json option \<Rightarrow> bool" where
  "truthy v = (case v of None \<Rightarrow> False | Some x \<Rightarrow> ToBoolean x)"

fun typeof :: "json option \<Rightarrow> string" where
  "typeof None = ''undefined''"
| "typeof (Some JNull) = ''object''"
| "typeof (Some (JBool _)) = ''boolean''"
| "typeof (Some (JNum _)) = ''number''"
| "typeof (Some (JStr _)) = ''string''"
| "typeof (Some (JArr _)) = ''object''"
| "typeof (Some (JObj _)) = ''object''"

fun isArray :: "json option \<Rightarrow> bool" where
  "isArray (Some (JArr _)) = True"
| "isArray _ = False"

text \<open>
  ToNumber. On null, booleans and numbers it is fixed by the language. On strings, arrays
  and objects it goes through ECMAScript's string grammar and \<open>toString\<close>, and can throw
  (an object whose own \<open>toString\<close> and \<open>valueOf\<close> are not callable): that part is a
  parameter of the model, so that every theorem holds for whatever the engine does there.
\<close>

type_synonym coercion = "json \<Rightarrow> thrown + number"

fun ToNumber :: "coercion \<Rightarrow> json \<Rightarrow> thrown + number" where
  "ToNumber cz JNull = Inr (Fin 0)"
| "ToNumber cz (JBool b) = Inr (Fin (if b then 1 else 0))"
| "ToNumber cz (JNum n) = Inr n"
| "ToNumber cz v = cz v"

text \<open>
  Reading the property \<open>k\<close> of a value that is not null, for the three names the handler
  reads (\<open>prompt\<close>, \<open>topK\<close>, \<open>excludeRecent\<close>): only an object can have them. An object is
  the list of its properties, the first binding of a name being the one read.
\<close>

fun member :: "json \<Rightarrow> jsstring \<Rightarrow> json option" where
  "member (JObj kvs) k = map_of kvs k"
| "member _ k = None"

fun string_of :: "json option \<Rightarrow> jsstring" where
  "string_of (Some (JStr s)) = s"
| "string_of _ = []"

section \<open>Requests, responses, environment\<close>

text \<open>
  The part of a \<open>Request\<close> the handler reads: its method, the decoded query parameters of
  its URL in order (\<open>searchParams.get\<close> returns the first value of a name), and the result
  of \<open>request.json()\<close>, \<open>None\<close> when that promise rejects.
\<close>

record request =
  req_method :: string
  searchParams :: "(jsstring \<times> jsstring) list"
  body_json :: "json option"

definition searchParams_get :: "request \<Rightarrow> string \<Rightarrow> jsstring option" where
  "searchParams_get r k = map_of (searchParams r) (js k)"

record sticker_result =
  assetbundleName :: jsstring
  name :: jsstring
  score :: rat

record recommend_response =
  success :: bool
  stickers :: "sticker_result list"
  query :: jsstring

datatype response =
    JsonResponse nat "(string \<times> string) list" recommend_response
  | ErrorResponse nat string string

fun status :: "response \<Rightarrow> nat" where
  "status (JsonResponse st _ _) = st"
| "status (ErrorResponse st _ _) = st"

fun error_code :: "response \<Rightarrow> string option" where
  "error_code (JsonResponse _ _ _) = None"
| "error_code (ErrorResponse _ c _) = Some c"

fun headers :: "response \<Rightarrow> (string \<times> string) list" where
  "headers (JsonResponse _ hs _) = hs"
| "headers (ErrorResponse _ _ _) = []"

fun response_stickers :: "response \<Rightarrow> sticker_result list" where
  "response_stickers (JsonResponse _ _ b) = stickers b"
| "response_stickers (ErrorResponse _ _ _) = []"

text \<open>
  Modelled from the spec: \<open>createErrorResponse\<close> of \<open>utils/response\<close> is not among the
  sources. The spec gives the error envelope \<open>{success: false, error: {code, message}}\<close>
  paired with a status, 400 for validation and JSON errors, which are the calls that pass
  no status. \<open>ErrorResponse st code message\<close> stands for that response; the spec does not
  give its headers.
\<close>

definition createErrorResponse :: "string \<Rightarrow> string \<Rightarrow> nat option \<Rightarrow> response" where
  "createErrorResponse c m st = ErrorResponse (case st of None \<Rightarrow> 400 | Some n \<Rightarrow> n) c m"

record parsed_params =
  prompt :: jsstring
  topK :: json
  excludeRecent :: "json option"

record ('ai, 'vec) env =
  AI :: 'ai
  VECTORIZE :: "'vec option"

text \<open>
  What the handler calls and does not define: the engine's coercion (see \<open>ToNumber\<close>) and
  the two functions of \<open>services/sticker\<close>, which are not among the sources. Each may throw.
\<close>

record ('ai, 'vec) runtime =
  coerce :: coercion
  extract_fn :: "json list \<Rightarrow> nat \<Rightarrow> thrown + jsstring list"
  search_fn :: "'ai \<Rightarrow> 'vec \<Rightarrow> jsstring \<Rightarrow> json \<Rightarrow> jsstring list option
               \<Rightarrow> thrown + sticker_result list"

text \<open>The calls a run makes, in order, and what it writes with \<open>console.error\<close>.\<close>

datatype event =
    ExtractCall "json list" nat
  | SearchCall jsstring json "jsstring list option"
  | ConsoleError thrown

section \<open>The handler\<close>

definition parseGetRequest :: "request \<Rightarrow> response + parsed_params" where
  "parseGetRequest request =
     (case searchParams_get request ''prompt'' of
        None \<Rightarrow>
          Inl (createErrorResponse ''INVALID_REQUEST'' ''prompt query parameter is required'' None)
      | Some promptParam \<Rightarrow>
          if promptParam = [] \<or> length (trim promptParam) = 0
          then Inl (createErrorResponse ''INVALID_REQUEST''
                      ''prompt query parameter is required'' None)
          else
            let prompt = trim promptParam;
                parsed = (case searchParams_get request ''topK'' of
                            None \<Rightarrow> Some 5
                          | Some topKParam \<Rightarrow>
                              if topKParam = [] then Some 5 else parseInt topKParam);
                topK = (case parsed of
                          None \<Rightarrow> 5
                        | Some n \<Rightarrow> if n < 1 \<or> n > 20 then 5 else n);
                excludeRecent =
                  (case searchParams_get request ''excludeRecent'' of
                     None \<Rightarrow> None
                   | Some excludeParam \<Rightarrow>
                       if excludeParam = [] then None
                       else Some (JArr (map JStr
                              (filter (\<lambda>s. length s > 0)
                                 (map trim (split_on 0x2C excludeParam))))))
            in Inr \<lparr>prompt = prompt, topK = JNum (Fin (of_int topK)),
                     excludeRecent = excludeRecent\<rparr>)"

definition parsePostRequest :: "coercion \<Rightarrow> request \<Rightarrow> thrown + (response + parsed_params)" where
  "parsePostRequest cz request =
     (case body_json request of
        None \<Rightarrow> Inr (Inl (createErrorResponse ''INVALID_JSON'' ''Invalid JSON in request body'' None))
      | Some body \<Rightarrow>
          if body = JNull then Inl TypeError
          else
            let p = member body (js ''prompt'') in
            if \<not> truthy p \<or> typeof p \<noteq> ''string'' \<or> length (trim (string_of p)) = 0
            then Inr (Inl (createErrorResponse ''INVALID_REQUEST''
                             ''prompt is required and must be a non-empty string'' None))
            else
              let prompt = trim (string_of p);
                  excludeRecent = member body (js ''excludeRecent'')
              in (case member body (js ''topK'') of
                    None \<Rightarrow> Inr (Inr \<lparr>prompt = prompt, topK = JNum (Fin 5),
                                       excludeRecent = excludeRecent\<rparr>)
                  | Some t \<Rightarrow>
                      if \<not> ToBoolean t
                      then Inr (Inr \<lparr>prompt = prompt, topK = JNum (Fin 5),
                                      excludeRecent = excludeRecent\<rparr>)
                      else (case ToNumber cz t of
                              Inl e \<Rightarrow> Inl e
                            | Inr n \<Rightarrow>
                                Inr (Inr \<lparr>prompt = prompt,
                                          topK = (if js_gt n (Fin 0) \<and> js_le n (Fin 20)
                                                  then t else JNum (Fin 5)),
                                          excludeRecent = excludeRecent\<rparr>))))"

definition createSuccessResponse :: "sticker_result list \<Rightarrow> jsstring \<Rightarrow> response" where
  "createSuccessResponse results q =
     JsonResponse 200
       [(''Content-Type'', ''application/json''),
        (''Access-Control-Allow-Origin'', ''*''),
        (''Access-Control-Allow-Methods'', ''GET, POST, OPTIONS''),
        (''Access-Control-Allow-Headers'', ''Content-Type'')]
       \<lparr>success = True, stickers = results, query = q\<rparr>"

text \<open>The \<open>catch\<close> block: whatever was thrown is logged and answered with status 500.\<close>

definition internal_error :: "event list \<Rightarrow> thrown \<Rightarrow> response \<times> event list" where
  "internal_error evs e =
     (createErrorResponse ''INTERNAL_ERROR'' ''An internal error occurred'' (Some 500),
      evs @ [ConsoleError e])"

text \<open>Lines 121 to 135 of the handler: what it does with successfully parsed parameters.\<close>

definition recommend :: "('ai, 'vec) runtime \<Rightarrow> 'ai \<Rightarrow> 'vec \<Rightarrow> parsed_params
    \<Rightarrow> response \<times> event list" where
  "recommend rt ai vectorize params =
     (let wanted = (truthy (excludeRecent params) \<and> isArray (excludeRecent params));
          msgs = (case excludeRecent params of Some (JArr xs) \<Rightarrow> xs | _ \<Rightarrow> []);
          evs = (if wanted then [ExtractCall msgs 10] else [])
      in case (if wanted then map_sum id Some (extract_fn rt msgs 10) else Inr None) of
           Inl e \<Rightarrow> internal_error evs e
         | Inr excludeIds \<Rightarrow>
             (let evs' = evs @ [SearchCall (prompt params) (topK params) excludeIds]
              in case search_fn rt ai vectorize (prompt params) (topK params) excludeIds of
                   Inl e \<Rightarrow> internal_error evs' e
                 | Inr results \<Rightarrow> (createSuccessResponse results (prompt params), evs')))"

definition handleRecommend :: "('ai, 'vec) runtime \<Rightarrow> request \<Rightarrow> ('ai, 'vec) env
    \<Rightarrow> response \<times> event list" where
  "handleRecommend rt request env =
     (case VECTORIZE env of
        None \<Rightarrow>
          (createErrorResponse ''VECTORIZE_UNAVAILABLE''
             ''Sticker recommendation service is not available'' (Some 503), [])
      | Some vectorize \<Rightarrow>
          if req_method request = ''GET'' then
            (case parseGetRequest request of
               Inl resp \<Rightarrow> (resp, [])
             | Inr params \<Rightarrow> recommend rt (AI env) vectorize params)
          else if req_method request = ''POST'' then
            (case parsePostRequest (coerce rt) request of
               Inl e \<Rightarrow> internal_error [] e
             | Inr (Inl resp) \<Rightarrow> (resp, [])
             | Inr (Inr params) \<Rightarrow> recommend rt (AI env) vectorize params)
          else
            (createErrorResponse ''METHOD_NOT_ALLOWED''
               ''Only GET and POST methods are supported'' (Some 405), []))"

section \<open>The similarity searcher, from its contract\<close>

record vector_match =
  match_id :: jsstring
  match_name :: jsstring
  match_score :: rat

type_synonym embedding = "rat list"
type_synonym embedder = "jsstring \<Rightarrow> thrown + embedding"

record vector_store =
  store_query :: "embedding \<Rightarrow> nat \<Rightarrow> thrown + vector_match list"
  store_max :: nat

text \<open>
  The contract is stated for an integer \<open>topK\<close>; the count taken from any other value
  (a fraction is cut, what is not a finite number counts as 0) plays no part in what is
  proved about the searcher below.
\<close>

definition topK_count :: "json \<Rightarrow> nat" where
  "topK_count k = (case k of JNum (Fin r) \<Rightarrow> nat \<lfloor>r\<rfloor> | _ \<Rightarrow> 0)"

text \<open>
  Modelled from the spec: \<open>searchStickersWithScores\<close> of \<open>services/sticker\<close> is not among
  the sources. The spec's contract (Similarity Searcher): embed the prompt, a failure
  propagating; query the store for \<open>topK + |excludeIds|\<close> nearest neighbours, bounded by
  the store's maximum; drop every candidate whose identifier is excluded; keep the first
  \<open>topK\<close> that remain, in the store's order; map each to its identifier, name and score.
\<close>

definition searchStickersWithScores :: "embedder \<Rightarrow> vector_store \<Rightarrow> jsstring \<Rightarrow> json
    \<Rightarrow> jsstring list option \<Rightarrow> thrown + sticker_result list" where
  "searchStickersWithScores ai vectorize text k excludeIds =
     (let excluded = (case excludeIds of None \<Rightarrow> [] | Some ids \<Rightarrow> ids) in
      case ai text of
        Inl e \<Rightarrow> Inl e
      | Inr v \<Rightarrow>
          (case store_query vectorize v
                  (min (topK_count k + length excluded) (store_max vectorize)) of
             Inl e \<Rightarrow> Inl e
           | Inr candidates \<Rightarrow>
               Inr (map (\<lambda>m. \<lparr>assetbundleName = match_id m, name = match_name m,
                                score = match_score m\<rparr>)
                      (take (topK_count k)
                         (filter (\<lambda>m. match_id m \<notin> set excluded) candidates)))))"

section \<open>When the handler falls back, in the words of the specification\<close>

text \<open>
  The query form's \<open>topK\<close> is not used: the parameter is absent or empty, or
  \<open>parseInt\<close> finds no integer at its start, or the integer found is outside 1..20.
\<close>

definition get_topK_unusable :: "jsstring option \<Rightarrow> bool" where
  "get_topK_unusable t =
     (case t of
        None \<Rightarrow> True
      | Some s \<Rightarrow> s = [] \<or> (case parseInt s of None \<Rightarrow> True | Some n \<Rightarrow> n < 1 \<or> 20 < n))"

text \<open>
  The JSON form's \<open>topK\<close> is not used: the property is absent or falsy, or its numeric
  value is NaN, infinite, at most 0 or more than 20.
\<close>

definition post_topK_unusable :: "coercion \<Rightarrow> json option \<Rightarrow> bool" where
  "post_topK_unusable cz t =
     (case t of
        None \<Rightarrow> True
      | Some v \<Rightarrow>
          (if ToBoolean v
           then (case ToNumber cz v of
                   Inl e \<Rightarrow> False
                 | Inr (Fin r) \<Rightarrow> r \<le> 0 \<or> 20 < r
                 | Inr _ \<Rightarrow> True)
           else True))"

text \<open>
  A text that is not a number in decimal notation, whatever the reading: one of its code
  units is neither a digit, a sign, a point, an exponent mark nor white space.
\<close>

definition non_numeric_text :: "jsstring \<Rightarrow> bool" where
  "non_numeric_text s =
     list_ex (\<lambda>c. \<not> (isDigit c \<or> c = 0x2B \<or> c = 0x2D \<or> c = 0x2E \<or> c = 0x45 \<or> c = 0x65
                     \<or> isWhiteSpace c)) s"

text \<open>A prompt that is missing, not a string, or empty after trimming.\<close>

definition prompt_unusable :: "json option \<Rightarrow> bool" where
  "prompt_unusable p = (case p of Some (JStr s) \<Rightarrow> trim s = [] | _ \<Rightarrow> True)"

section \<open>Instances for running the handler\<close>

text \<open>
  A runtime whose coercion yields NaN on every string, array and object, whose extractor
  finds nothing and whose searcher finds nothing; one whose extractor always throws and
  whose searcher answers the prompt \<open>cat\<close> only; and one that runs the searcher of the
  contract over an extractor that takes each string of the array as an identifier.
\<close>

definition quiet_runtime :: "(unit, unit) runtime" where
  "quiet_runtime =
     \<lparr>coerce = (\<lambda>_. Inr NaN), extract_fn = (\<lambda>_ _. Inr []),
      search_fn = (\<lambda>_ _ _ _ _. Inr [])\<rparr>"

definition picky_runtime :: "(unit, unit) runtime" where
  "picky_runtime =
     \<lparr>coerce = (\<lambda>_. Inr NaN), extract_fn = (\<lambda>_ _. Inl TypeError),
      search_fn = (\<lambda>_ _ p _ _. if p = js ''cat'' then Inr [] else Inl (Raised ''no index''))\<rparr>"

definition contract_runtime :: "(embedder, vector_store) runtime" where
  "contract_runtime =
     \<lparr>coerce = (\<lambda>_. Inr NaN),
      extract_fn = (\<lambda>ms n. Inr (take n (remdups (map (\<lambda>m. string_of (Some m)) ms)))),
      search_fn = searchStickersWithScores\<rparr>"

definition demo_store :: vector_store where
  "demo_store =
     \<lparr>store_query = (\<lambda>v n. Inr (take n
        [\<lparr>match_id = js ''stickerA'', match_name = js ''Cake'', match_score = 9 / 10\<rparr>,
         \<lparr>match_id = js ''stickerB'', match_name = js ''Candle'', match_score = 4 / 5\<rparr>,
         \<lparr>match_id = js ''stickerC'', match_name = js ''Gift'', match_score = 1 / 2\<rparr>])),
      store_max = 50\<rparr>"

definition demo_env :: "(embedder, vector_store) env" where
  "demo_env = \<lparr>AI = (\<lambda>t. Inr [1, 0]), VECTORIZE = Some demo_store\<rparr>"

section \<open>Properties of the handler\<close>

lemma trim_Nil [simp]: "trim [] = []"
  by (simp add: trim_def trimStart_def trimEnd_def)

lemma handleRecommend_unavailable:
  "VECTORIZE env = None \<Longrightarrow>
   handleRecommend rt request env =
     (ErrorResponse 503 ''VECTORIZE_UNAVAILABLE''
        ''Sticker recommendation service is not available'', [])"
  by (simp add: handleRecommend_def createErrorResponse_def)

lemma handleRecommend_other_method:
  "VECTORIZE env = Some v \<Longrightarrow> req_method request \<noteq> ''GET'' \<Longrightarrow> req_method request \<noteq> ''POST'' \<Longrightarrow>
   handleRecommend rt request env =
     (ErrorResponse 405 ''METHOD_NOT_ALLOWED'' ''Only GET and POST methods are supported'', [])"
  by (simp add: handleRecommend_def createErrorResponse_def)

lemma handleRecommend_GET:
  "VECTORIZE env = Some v \<Longrightarrow> req_method request = ''GET'' \<Longrightarrow>
   handleRecommend rt request env =
     (case parseGetRequest request of
        Inl resp \<Rightarrow> (resp, [])
      | Inr params \<Rightarrow> recommend rt (AI env) v params)"
  by (simp add: handleRecommend_def)

lemma handleRecommend_POST:
  "VECTORIZE env = Some v \<Longrightarrow> req_method request = ''POST'' \<Longrightarrow>
   handleRecommend rt request env =
     (case parsePostRequest (coerce rt) request of
        Inl e \<Rightarrow> internal_error [] e
      | Inr (Inl resp) \<Rightarrow> (resp, [])
      | Inr (Inr params) \<Rightarrow> recommend rt (AI env) v params)"
  by (simp add: handleRecommend_def)

text \<open>What a run does once the parameters are parsed.\<close>

lemma recommend_no_array:
  "\<not> isArray (excludeRecent params) \<Longrightarrow>
   recommend rt ai v params =
     (case search_fn rt ai v (prompt params) (topK params) None of
        Inl e \<Rightarrow> internal_error [SearchCall (prompt params) (topK params) None] e
      | Inr results \<Rightarrow>
          (createSuccessResponse results (prompt params),
           [SearchCall (prompt params) (topK params) None]))"
  by (simp add: recommend_def Let_def)

lemma recommend_array:
  "excludeRecent params = Some (JArr ms) \<Longrightarrow>
   recommend rt ai v params =
     (case extract_fn rt ms 10 of
        Inl e \<Rightarrow> internal_error [ExtractCall ms 10] e
      | Inr ids \<Rightarrow>
          (case search_fn rt ai v (prompt params) (topK params) (Some ids) of
             Inl e \<Rightarrow>
               internal_error
                 [ExtractCall ms 10, SearchCall (prompt params) (topK params) (Some ids)] e
           | Inr results \<Rightarrow>
               (createSuccessResponse results (prompt params),
                [ExtractCall ms 10, SearchCall (prompt params) (topK params) (Some ids)])))"
  by (simp add: recommend_def truthy_def split: sum.splits)

lemma isArray_iff: "isArray x \<longleftrightarrow> (\<exists>ms. x = Some (JArr ms))"
  by (cases x rule: isArray.cases) simp_all

lemma recommend_search_topK:
  "SearchCall p k x \<in> set (snd (recommend rt ai v params)) \<Longrightarrow>
   p = prompt params \<and> k = topK params"
  by (cases "isArray (excludeRecent params)")
     (auto simp: isArray_iff recommend_array recommend_no_array internal_error_def
           split: sum.splits)



lemma in_post_range_iff:
  "js_gt n (Fin 0) \<and> js_le n (Fin 20) \<longleftrightarrow> (\<exists>r. n = Fin r \<and> 0 < r \<and> r \<le> 20)"
  by (cases n) (auto simp: js_gt_def js_le_def)

lemma parseGetRequest_topK_default:
  assumes "parseGetRequest request = Inr params"
    and "get_topK_unusable (searchParams_get request ''topK'')"
  shows "topK params = JNum (Fin 5)"
  using assms
  by (auto simp: parseGetRequest_def get_topK_unusable_def Let_def
           split: option.splits if_splits)

lemma parseGetRequest_topK_integer:
  assumes "parseGetRequest request = Inr params"
  shows "\<exists>n. topK params = JNum (Fin (of_int n)) \<and> 1 \<le> n \<and> n \<le> 20"
  using assms
  by (auto simp: parseGetRequest_def Let_def split: option.splits if_splits)

lemma parsePostRequest_topK_default:
  assumes "parsePostRequest cz request = Inr (Inr params)"
    and "body_json request = Some body"
    and "post_topK_unusable cz (member body (js ''topK''))"
  shows "topK params = JNum (Fin 5)"
proof (cases "member body (js ''topK'')")
  case None
  with assms(1,2) show ?thesis
    by (auto simp: parsePostRequest_def Let_def split: if_splits)
next
  case (Some t)
  show ?thesis
  proof (cases "ToBoolean t")
    case False
    with Some assms(1,2) show ?thesis
      by (auto simp: parsePostRequest_def Let_def split: if_splits)
  next
    case True
    with Some assms(3) obtain n where n: "ToNumber cz t = Inr n"
      and out: "\<not> (js_gt n (Fin 0) \<and> js_le n (Fin 20))"
      unfolding in_post_range_iff
      by (auto simp: post_topK_unusable_def split: sum.splits number.splits)
    from assms(1,2) Some True n out show ?thesis
      by (auto simp: parsePostRequest_def Let_def split: if_splits)
  qed
qed

text \<open>
  Claim C1, as amended. Whenever the supplied \<open>topK\<close> is unusable, every search the run
  makes is given exactly 5. For the query form, unusable means absent, empty, without an
  integer at its start for \<open>parseInt\<close>, or with one outside 1..20. For the JSON form it
  means absent, falsy, or of a numeric value that is NaN, infinite, at most 0 or more
  than 20. Nothing is said here of the JSON form's values strictly between 0 and 1.
\<close>

theorem effective_topK_default:
  assumes "VECTORIZE env = Some v"
    and "req_method request = ''GET'' \<and> get_topK_unusable (searchParams_get request ''topK'')
         \<or> req_method request = ''POST'' \<and> body_json request = Some body
           \<and> post_topK_unusable (coerce rt) (member body (js ''topK''))"
    and "SearchCall p k x \<in> set (snd (handleRecommend rt request env))"
  shows "k = JNum (Fin 5)"
  using assms(2)
proof (elim disjE conjE)
  assume get: "req_method request = ''GET''"
    and bad: "get_topK_unusable (searchParams_get request ''topK'')"
  show ?thesis
  proof (cases "parseGetRequest request")
    case (Inl resp)
    with assms(1,3) get show ?thesis
      by (simp add: handleRecommend_GET)
  next
    case (Inr params)
    with assms(1,3) get have "k = topK params"
      by (simp add: handleRecommend_GET recommend_search_topK)
    with Inr bad show ?thesis
      by (simp add: parseGetRequest_topK_default)
  qed
next
  assume post: "req_method request = ''POST''"
    and body: "body_json request = Some body"
    and bad: "post_topK_unusable (coerce rt) (member body (js ''topK''))"
  from assms(1,3) post obtain params
    where ok: "parsePostRequest (coerce rt) request = Inr (Inr params)"
      and call: "SearchCall p k x \<in> set (snd (recommend rt (AI env) v params))"
    by (auto simp: handleRecommend_POST internal_error_def split: sum.splits)
  from call have "k = topK params"
    by (simp add: recommend_search_topK)
  with ok body bad show ?thesis
    by (simp add: parsePostRequest_topK_default)
qed


theorem effective_topK_default_witness:
  "VECTORIZE \<lparr>AI = (), VECTORIZE = Some ()\<rparr> = Some ()
   \<and> get_topK_unusable (searchParams_get
         \<lparr>req_method = ''GET'',
          searchParams = [(js ''prompt'', js ''cat''), (js ''topK'', js ''abc'')],
          body_json = None\<rparr> ''topK'')
   \<and> SearchCall (js ''cat'') (JNum (Fin 5)) None
       \<in> set (snd (handleRecommend quiet_runtime
            \<lparr>req_method = ''GET'',
             searchParams = [(js ''prompt'', js ''cat''), (js ''topK'', js ''abc'')],
             body_json = None\<rparr>
            \<lparr>AI = (), VECTORIZE = Some ()\<rparr>))
   \<and> post_topK_unusable (coerce quiet_runtime)
         (member (JObj [(js ''prompt'', JStr (js ''cat'')), (js ''topK'', JNum (Fin 25))])
            (js ''topK''))
   \<and> SearchCall (js ''cat'') (JNum (Fin 5)) None
       \<in> set (snd (handleRecommend quiet_runtime
            \<lparr>req_method = ''POST'', searchParams = [],
             body_json = Some (JObj [(js ''prompt'', JStr (js ''cat'')),
                                     (js ''topK'', JNum (Fin 25))])\<rparr>
            \<lparr>AI = (), VECTORIZE = Some ()\<rparr>))"
proof -
  let ?env = "\<lparr>AI = (), VECTORIZE = Some ()\<rparr>"
  let ?get = "\<lparr>req_method = ''GET'',
               searchParams = [(js ''prompt'', js ''cat''), (js ''topK'', js ''abc'')],
               body_json = None\<rparr>"
  let ?body = "JObj [(js ''prompt'', JStr (js ''cat'')), (js ''topK'', JNum (Fin 25))]"
  let ?post = "\<lparr>req_method = ''POST'', searchParams = [], body_json = Some ?body\<rparr>"
  have env: "VECTORIZE ?env = Some ()"
    by simp
  have bad_get: "get_topK_unusable (searchParams_get ?get ''topK'')"
    by (simp add: get_topK_unusable_def searchParams_get_def js_def parseInt_def
          trimStart_def isWhiteSpace_def isDigit_def)
  have bad_post: "post_topK_unusable (coerce quiet_runtime) (member ?body (js ''topK''))"
    by (simp add: post_topK_unusable_def js_def)
  have run_get: "snd (handleRecommend quiet_runtime ?get ?env)
                   = [SearchCall (js ''cat'') (JNum (Fin 5)) None]"
    by (simp add: handleRecommend_def parseGetRequest_def searchParams_get_def js_def
          trim_def trimStart_def trimEnd_def isWhiteSpace_def parseInt_def isDigit_def
          recommend_def truthy_def quiet_runtime_def createSuccessResponse_def)
  have run_post: "snd (handleRecommend quiet_runtime ?post ?env)
                    = [SearchCall (js ''cat'') (JNum (Fin 5)) None]"
    by (simp add: handleRecommend_def parsePostRequest_def js_def truthy_def
          trim_def trimStart_def trimEnd_def isWhiteSpace_def js_gt_def js_le_def
          recommend_def quiet_runtime_def createSuccessResponse_def)
  have "JNum (Fin 5) = JNum (Fin 5)"
    using effective_topK_default [of ?env "()" ?get JNull quiet_runtime
        "js ''cat''" "JNum (Fin 5)" None] env bad_get run_get
    by simp
  moreover have "JNum (Fin 5) = JNum (Fin 5)"
    using effective_topK_default [of ?env "()" ?post ?body quiet_runtime
        "js ''cat''" "JNum (Fin 5)" None] env bad_post run_post
    by simp
  ultimately show ?thesis
    using env bad_get bad_post run_get run_post by simp
qed

text \<open>
  Claim C1 as first stated took the bounds 1..20 for both forms and every non-numeric
  value. The query \<open>?prompt=cat&topK=7up\<close> supplies no number, \<open>parseInt\<close> reads the 7 at
  its start, and the search is given 7. The JSON body \<open>{"prompt": "cat", "topK": true}\<close>
  supplies no number either, \<open>true\<close> coerces to 1, and the search is given \<open>true\<close>. The
  body \<open>{"prompt": "cat", "topK": 0.5}\<close> is outside 1..20 and the search is given 0.5.
\<close>

theorem effective_topK_counterexample:
  "non_numeric_text (js ''7up'')
   \<and> snd (handleRecommend quiet_runtime
          \<lparr>req_method = ''GET'',
           searchParams = [(js ''prompt'', js ''cat''), (js ''topK'', js ''7up'')],
           body_json = None\<rparr>
          \<lparr>AI = (), VECTORIZE = Some ()\<rparr>)
     = [SearchCall (js ''cat'') (JNum (Fin 7)) None]
   \<and> snd (handleRecommend quiet_runtime
          \<lparr>req_method = ''POST'', searchParams = [],
           body_json = Some (JObj [(js ''prompt'', JStr (js ''cat'')),
                                   (js ''topK'', JBool True)])\<rparr>
          \<lparr>AI = (), VECTORIZE = Some ()\<rparr>)
     = [SearchCall (js ''cat'') (JBool True) None]
   \<and> (1 / 2 :: rat) < 1
   \<and> snd (handleRecommend quiet_runtime
          \<lparr>req_method = ''POST'', searchParams = [],
           body_json = Some (JObj [(js ''prompt'', JStr (js ''cat'')),
                                   (js ''topK'', JNum (Fin (1 / 2)))])\<rparr>
          \<lparr>AI = (), VECTORIZE = Some ()\<rparr>)
     = [SearchCall (js ''cat'') (JNum (Fin (1 / 2))) None]
   \<and> JNum (Fin 7) \<noteq> JNum (Fin 5) \<and> JBool True \<noteq> JNum (Fin 5)
   \<and> JNum (Fin (1 / 2)) \<noteq> JNum (Fin 5)"
proof -
  have "parseInt (js ''7up'') = Some 7"
    by (simp add: parseInt_def js_def trimStart_def isWhiteSpace_def isDigit_def
          digits_value_def)
  then have "snd (handleRecommend quiet_runtime
          \<lparr>req_method = ''GET'',
           searchParams = [(js ''prompt'', js ''cat''), (js ''topK'', js ''7up'')],
           body_json = None\<rparr>
          \<lparr>AI = (), VECTORIZE = Some ()\<rparr>)
     = [SearchCall (js ''cat'') (JNum (Fin 7)) None]"
    by (simp add: handleRecommend_def parseGetRequest_def searchParams_get_def js_def
          trim_def trimStart_def trimEnd_def isWhiteSpace_def
          recommend_def truthy_def quiet_runtime_def createSuccessResponse_def)
  moreover have "non_numeric_text (js ''7up'')"
    by (simp add: non_numeric_text_def js_def isDigit_def isWhiteSpace_def)
  ultimately show ?thesis
    by (simp add: handleRecommend_def parsePostRequest_def js_def truthy_def
          trim_def trimStart_def trimEnd_def isWhiteSpace_def js_gt_def js_le_def
          recommend_def quiet_runtime_def createSuccessResponse_def)
qed

text \<open>
  Claim C5. While the vector-search binding is absent, the handler answers
  \<open>VECTORIZE_UNAVAILABLE\<close> with status 503 whatever the request and the runtime are, and
  makes no call: the request is not even read.
\<close>

theorem vectorize_unavailable_first:
  "VECTORIZE env = None \<Longrightarrow>
     error_code (fst (handleRecommend rt request env)) = Some ''VECTORIZE_UNAVAILABLE''
   \<and> status (fst (handleRecommend rt request env)) = 503
   \<and> snd (handleRecommend rt request env) = []"
  by (simp add: handleRecommend_unavailable)

theorem vectorize_unavailable_first_witness:
  "VECTORIZE \<lparr>AI = (), VECTORIZE = (None :: unit option)\<rparr> = None
   \<and> error_code (fst (handleRecommend quiet_runtime
        \<lparr>req_method = ''POST'', searchParams = [],
         body_json = Some (JObj [(js ''prompt'', JStr (js ''cat''))])\<rparr>
        \<lparr>AI = (), VECTORIZE = None\<rparr>)) = Some ''VECTORIZE_UNAVAILABLE''
   \<and> status (fst (handleRecommend quiet_runtime
        \<lparr>req_method = ''POST'', searchParams = [],
         body_json = Some (JObj [(js ''prompt'', JStr (js ''cat''))])\<rparr>
        \<lparr>AI = (), VECTORIZE = None\<rparr>)) = 503"
  using vectorize_unavailable_first
    [of "\<lparr>AI = (), VECTORIZE = (None :: unit option)\<rparr>" quiet_runtime
        "\<lparr>req_method = ''POST'', searchParams = [],
          body_json = Some (JObj [(js ''prompt'', JStr (js ''cat''))])\<rparr>"]
  by simp

text \<open>
  Claim C3, as amended. While the vector-search binding is present, a request whose method
  is neither GET nor POST is answered \<open>METHOD_NOT_ALLOWED\<close> with status 405 and no call
  is made, whatever the rest of the request is.
\<close>

theorem method_not_allowed:
  assumes "VECTORIZE env = Some v"
    and "req_method request \<noteq> ''GET''"
    and "req_method request \<noteq> ''POST''"
  shows "error_code (fst (handleRecommend rt request env)) = Some ''METHOD_NOT_ALLOWED''
         \<and> status (fst (handleRecommend rt request env)) = 405
         \<and> snd (handleRecommend rt request env) = []"
  using assms by (simp add: handleRecommend_other_method)

theorem method_not_allowed_witness:
  "VECTORIZE \<lparr>AI = (), VECTORIZE = Some ()\<rparr> = Some ()
   \<and> req_method \<lparr>req_method = ''DELETE'', searchParams = [], body_json = None\<rparr> \<noteq> ''GET''
   \<and> req_method \<lparr>req_method = ''DELETE'', searchParams = [], body_json = None\<rparr> \<noteq> ''POST''
   \<and> handleRecommend quiet_runtime
        \<lparr>req_method = ''DELETE'', searchParams = [], body_json = None\<rparr>
        \<lparr>AI = (), VECTORIZE = Some ()\<rparr>
       = (ErrorResponse 405 ''METHOD_NOT_ALLOWED''
            ''Only GET and POST methods are supported'', [])"
proof -
  let ?env = "\<lparr>AI = (), VECTORIZE = Some ()\<rparr>"
  let ?req = "\<lparr>req_method = ''DELETE'', searchParams = [], body_json = None\<rparr>"
  have "error_code (fst (handleRecommend quiet_runtime ?req ?env)) = Some ''METHOD_NOT_ALLOWED''
        \<and> status (fst (handleRecommend quiet_runtime ?req ?env)) = 405
        \<and> snd (handleRecommend quiet_runtime ?req ?env) = []"
    by (rule method_not_allowed [of ?env "()"]) simp_all
  then show ?thesis
    by (cases "handleRecommend quiet_runtime ?req ?env")
       (simp add: handleRecommend_def createErrorResponse_def)
qed

text \<open>
  Claim C3 as first stated held "regardless of the environment". With the binding absent
  a DELETE request is answered \<open>VECTORIZE_UNAVAILABLE\<close>, status 503: the availability
  check comes before the dispatch on the method.
\<close>

theorem method_not_allowed_counterexample:
  "req_method \<lparr>req_method = ''DELETE'', searchParams = [], body_json = None\<rparr> \<noteq> ''GET''
   \<and> req_method \<lparr>req_method = ''DELETE'', searchParams = [], body_json = None\<rparr> \<noteq> ''POST''
   \<and> error_code (fst (handleRecommend quiet_runtime
        \<lparr>req_method = ''DELETE'', searchParams = [], body_json = None\<rparr>
        \<lparr>AI = (), VECTORIZE = None\<rparr>)) = Some ''VECTORIZE_UNAVAILABLE''
   \<and> status (fst (handleRecommend quiet_runtime
        \<lparr>req_method = ''DELETE'', searchParams = [], body_json = None\<rparr>
        \<lparr>AI = (), VECTORIZE = None\<rparr>)) = 503"
  by (simp add: handleRecommend_def createErrorResponse_def)

text \<open>Every response of the handler that is not an error carries the CORS headers.\<close>

lemma recommend_success_headers:
  assumes "error_code (fst (recommend rt ai v params)) = None"
  shows "map_of (headers (fst (recommend rt ai v params))) ''Access-Control-Allow-Methods''
           = Some ''GET, POST, OPTIONS''"
proof (cases "isArray (excludeRecent params)")
  case False
  with assms show ?thesis
    by (auto simp: recommend_no_array internal_error_def createErrorResponse_def
          createSuccessResponse_def split: sum.splits)
next
  case True
  then obtain ms where "excludeRecent params = Some (JArr ms)"
    by (auto simp: isArray_iff)
  with assms show ?thesis
    by (auto simp: recommend_array internal_error_def createErrorResponse_def
          createSuccessResponse_def split: sum.splits)
qed

lemma parseGetRequest_error:
  "parseGetRequest request = Inl resp \<Longrightarrow> error_code resp = Some ''INVALID_REQUEST''"
  by (auto simp: parseGetRequest_def createErrorResponse_def Let_def
        split: option.splits if_splits)

lemma parsePostRequest_error:
  "parsePostRequest cz request = Inr (Inl resp) \<Longrightarrow> error_code resp \<noteq> None"
  by (auto simp: parsePostRequest_def createErrorResponse_def Let_def
        split: option.splits if_splits sum.splits)

lemma handleRecommend_success_headers:
  assumes "error_code (fst (handleRecommend rt request env)) = None"
  shows "map_of (headers (fst (handleRecommend rt request env)))
           ''Access-Control-Allow-Methods'' = Some ''GET, POST, OPTIONS''"
proof (cases "VECTORIZE env")
  case None
  with assms show ?thesis
    by (simp add: handleRecommend_unavailable)
next
  case (Some v)
  consider (get) "req_method request = ''GET''" | (post) "req_method request = ''POST''"
    | (other) "req_method request \<noteq> ''GET''" "req_method request \<noteq> ''POST''"
    by blast
  then show ?thesis
  proof cases
    case get
    show ?thesis
    proof (cases "parseGetRequest request")
      case (Inl resp)
      with Some get assms parseGetRequest_error [OF Inl] show ?thesis
        by (simp add: handleRecommend_GET)
    next
      case (Inr params)
      with Some get assms show ?thesis
        by (simp add: handleRecommend_GET recommend_success_headers)
    qed
  next
    case post
    show ?thesis
    proof (cases "parsePostRequest (coerce rt) request")
      case (Inl e)
      with Some post assms show ?thesis
        by (simp add: handleRecommend_POST internal_error_def createErrorResponse_def)
    next
      case (Inr r)
      show ?thesis
      proof (cases r)
        case (Inl resp)
        with Inr have "parsePostRequest (coerce rt) request = Inr (Inl resp)"
          by simp
        from parsePostRequest_error [OF this] Inr Inl Some post assms show ?thesis
          by (simp add: handleRecommend_POST)
      next
        case params: (Inr params)
        with Inr Some post assms show ?thesis
          by (simp add: handleRecommend_POST recommend_success_headers)
      qed
    qed
  next
    case other
    with Some assms show ?thesis
      by (simp add: handleRecommend_other_method)
  qed
qed

text \<open>
  Claim C10. While the vector-search binding is present, an OPTIONS request is answered
  \<open>METHOD_NOT_ALLOWED\<close> with status 405, although every success response the handler
  itself returns, for whatever request, environment and runtime, lists OPTIONS in its
  \<open>Access-Control-Allow-Methods\<close> header, as \<open>createSuccessResponse\<close> builds it.
\<close>

theorem options_not_allowed:
  assumes "VECTORIZE env = Some v"
    and "req_method request = ''OPTIONS''"
  shows "error_code (fst (handleRecommend rt request env)) = Some ''METHOD_NOT_ALLOWED''
         \<and> status (fst (handleRecommend rt request env)) = 405
         \<and> (error_code (fst (handleRecommend rt' request' env')) = None \<longrightarrow>
              map_of (headers (fst (handleRecommend rt' request' env')))
                ''Access-Control-Allow-Methods'' = Some ''GET, POST, OPTIONS'')
         \<and> map_of (headers (createSuccessResponse results q)) ''Access-Control-Allow-Methods''
             = Some ''GET, POST, OPTIONS''"
proof -
  from assms(2) have "req_method request \<noteq> ''GET''" and "req_method request \<noteq> ''POST''"
    by simp_all
  with assms(1) have "handleRecommend rt request env =
      (ErrorResponse 405 ''METHOD_NOT_ALLOWED'' ''Only GET and POST methods are supported'', [])"
    by (rule handleRecommend_other_method)
  then show ?thesis
    by (simp add: createSuccessResponse_def handleRecommend_success_headers)
qed

theorem options_not_allowed_witness:
  "VECTORIZE \<lparr>AI = (), VECTORIZE = Some ()\<rparr> = Some ()
   \<and> req_method \<lparr>req_method = ''OPTIONS'', searchParams = [], body_json = None\<rparr> = ''OPTIONS''
   \<and> status (fst (handleRecommend quiet_runtime
        \<lparr>req_method = ''OPTIONS'', searchParams = [], body_json = None\<rparr>
        \<lparr>AI = (), VECTORIZE = Some ()\<rparr>)) = 405
   \<and> error_code (fst (handleRecommend quiet_runtime
        \<lparr>req_method = ''GET'', searchParams = [(js ''prompt'', js ''cat'')],
         body_json = None\<rparr>
        \<lparr>AI = (), VECTORIZE = Some ()\<rparr>)) = None
   \<and> map_of (headers (fst (handleRecommend quiet_runtime
        \<lparr>req_method = ''GET'', searchParams = [(js ''prompt'', js ''cat'')],
         body_json = None\<rparr>
        \<lparr>AI = (), VECTORIZE = Some ()\<rparr>))) ''Access-Control-Allow-Methods''
       = Some ''GET, POST, OPTIONS''"
proof -
  let ?env = "\<lparr>AI = (), VECTORIZE = Some ()\<rparr>"
  let ?options = "\<lparr>req_method = ''OPTIONS'', searchParams = [], body_json = None\<rparr>"
  let ?get = "\<lparr>req_method = ''GET'', searchParams = [(js ''prompt'', js ''cat'')],
               body_json = None\<rparr>"
  have ok: "error_code (fst (handleRecommend quiet_runtime ?get ?env)) = None"
    by (simp add: handleRecommend_def parseGetRequest_def searchParams_get_def js_def
          trim_def trimStart_def trimEnd_def isWhiteSpace_def
          recommend_def truthy_def quiet_runtime_def createSuccessResponse_def)
  have "VECTORIZE ?env = Some ()" and "req_method ?options = ''OPTIONS''"
    by simp_all
  from options_not_allowed [OF this, of quiet_runtime quiet_runtime ?get ?env "[]" "js ''cat''"]
    ok
  show ?thesis
    by simp
qed

section \<open>Prompts that are not usable\<close>

lemma parseGetRequest_bad_prompt:
  assumes "prompt_unusable (map_option JStr (searchParams_get request ''prompt''))"
  shows "parseGetRequest request =
           Inl (ErrorResponse 400 ''INVALID_REQUEST'' ''prompt query parameter is required'')"
  using assms
  by (cases "searchParams_get request ''prompt''")
     (simp_all add: parseGetRequest_def prompt_unusable_def createErrorResponse_def)

lemma prompt_unusable_iff:
  "prompt_unusable p \<longleftrightarrow>
     \<not> truthy p \<or> typeof p \<noteq> ''string'' \<or> length (trim (string_of p)) = 0"
proof (cases p)
  case None
  then show ?thesis by (simp add: prompt_unusable_def truthy_def)
next
  case (Some x)
  then show ?thesis
    by (cases x) (auto simp: prompt_unusable_def truthy_def)
qed

lemma parsePostRequest_bad_prompt:
  assumes "body_json request = Some body" and "body \<noteq> JNull"
    and "prompt_unusable (member body (js ''prompt''))"
  shows "parsePostRequest cz request =
           Inr (Inl (ErrorResponse 400 ''INVALID_REQUEST''
                  ''prompt is required and must be a non-empty string''))"
  using assms(3) unfolding prompt_unusable_iff
  by (simp add: parsePostRequest_def assms(1,2) createErrorResponse_def)

text \<open>
  Claim C6, as amended. While the vector-search binding is present, a GET request, or a
  POST request whose body parsed as JSON to a value other than null, with a prompt that is
  missing, not a string, or empty after trimming, is answered \<open>INVALID_REQUEST\<close> with
  status 400, and neither the extractor nor the searcher is called.
\<close>

theorem unusable_prompt_rejected:
  assumes "VECTORIZE env = Some v"
    and "req_method request = ''GET''
           \<and> prompt_unusable (map_option JStr (searchParams_get request ''prompt''))
         \<or> req_method request = ''POST'' \<and> body_json request = Some body \<and> body \<noteq> JNull
           \<and> prompt_unusable (member body (js ''prompt''))"
  shows "error_code (fst (handleRecommend rt request env)) = Some ''INVALID_REQUEST''
         \<and> status (fst (handleRecommend rt request env)) = 400
         \<and> snd (handleRecommend rt request env) = []"
  using assms(2)
proof
  assume "req_method request = ''GET''
            \<and> prompt_unusable (map_option JStr (searchParams_get request ''prompt''))"
  with assms(1) show ?thesis
    by (simp add: handleRecommend_GET parseGetRequest_bad_prompt)
next
  assume "req_method request = ''POST'' \<and> body_json request = Some body \<and> body \<noteq> JNull
            \<and> prompt_unusable (member body (js ''prompt''))"
  with assms(1) show ?thesis
    by (simp add: handleRecommend_POST parsePostRequest_bad_prompt)
qed

theorem unusable_prompt_rejected_witness:
  "VECTORIZE \<lparr>AI = (), VECTORIZE = Some ()\<rparr> = Some ()
   \<and> prompt_unusable (map_option JStr (searchParams_get
        \<lparr>req_method = ''GET'', searchParams = [(js ''prompt'', [0x20, 0x3000])],
         body_json = None\<rparr> ''prompt''))
   \<and> handleRecommend quiet_runtime
        \<lparr>req_method = ''GET'', searchParams = [(js ''prompt'', [0x20, 0x3000])],
         body_json = None\<rparr>
        \<lparr>AI = (), VECTORIZE = Some ()\<rparr>
       = (ErrorResponse 400 ''INVALID_REQUEST'' ''prompt query parameter is required'', [])
   \<and> prompt_unusable (member (JObj [(js ''prompt'', JNum (Fin 7))]) (js ''prompt''))
   \<and> handleRecommend quiet_runtime
        \<lparr>req_method = ''POST'', searchParams = [],
         body_json = Some (JObj [(js ''prompt'', JNum (Fin 7))])\<rparr>
        \<lparr>AI = (), VECTORIZE = Some ()\<rparr>
       = (ErrorResponse 400 ''INVALID_REQUEST''
            ''prompt is required and must be a non-empty string'', [])"
proof -
  let ?env = "\<lparr>AI = (), VECTORIZE = Some ()\<rparr>"
  let ?get = "\<lparr>req_method = ''GET'', searchParams = [(js ''prompt'', [0x20, 0x3000])],
               body_json = None\<rparr>"
  let ?body = "JObj [(js ''prompt'', JNum (Fin 7))]"
  let ?post = "\<lparr>req_method = ''POST'', searchParams = [], body_json = Some ?body\<rparr>"
  have blank: "prompt_unusable (map_option JStr (searchParams_get ?get ''prompt''))"
    by (simp add: prompt_unusable_def searchParams_get_def trim_def trimStart_def
          trimEnd_def isWhiteSpace_def)
  have seven: "prompt_unusable (member ?body (js ''prompt''))"
    by (simp add: prompt_unusable_def)
  have "error_code (fst (handleRecommend quiet_runtime ?get ?env)) = Some ''INVALID_REQUEST''
        \<and> status (fst (handleRecommend quiet_runtime ?get ?env)) = 400
        \<and> snd (handleRecommend quiet_runtime ?get ?env) = []"
    using unusable_prompt_rejected [of ?env "()" ?get JNull quiet_runtime] blank by simp
  moreover
  have "error_code (fst (handleRecommend quiet_runtime ?post ?env)) = Some ''INVALID_REQUEST''
        \<and> status (fst (handleRecommend quiet_runtime ?post ?env)) = 400
        \<and> snd (handleRecommend quiet_runtime ?post ?env) = []"
    using unusable_prompt_rejected [of ?env "()" ?post ?body quiet_runtime] seven by simp
  moreover
  have "fst (handleRecommend quiet_runtime ?get ?env)
          = ErrorResponse 400 ''INVALID_REQUEST'' ''prompt query parameter is required''"
    using blank by (simp add: handleRecommend_GET parseGetRequest_bad_prompt)
  moreover
  have "fst (handleRecommend quiet_runtime ?post ?env)
          = ErrorResponse 400 ''INVALID_REQUEST''
              ''prompt is required and must be a non-empty string''"
    using seven by (simp add: handleRecommend_POST parsePostRequest_bad_prompt)
  ultimately show ?thesis
    using blank seven by (simp add: prod_eq_iff)
qed

text \<open>
  Claim C6 as first stated covered every GET and POST request. With the binding absent, a
  GET request without a prompt is answered \<open>VECTORIZE_UNAVAILABLE\<close>, by the check that
  comes first. With the binding present, the JSON body \<open>null\<close> has no prompt and is
  answered \<open>INTERNAL_ERROR\<close>, status 500: reading \<open>body.prompt\<close> throws outside the
  \<open>try\<close> of the parser and the handler's \<open>catch\<close> takes it.
\<close>

theorem unusable_prompt_counterexample:
  "prompt_unusable (map_option JStr (searchParams_get
        \<lparr>req_method = ''GET'', searchParams = [], body_json = None\<rparr> ''prompt''))
   \<and> handleRecommend quiet_runtime
        \<lparr>req_method = ''GET'', searchParams = [], body_json = None\<rparr>
        \<lparr>AI = (), VECTORIZE = None\<rparr>
       = (ErrorResponse 503 ''VECTORIZE_UNAVAILABLE''
            ''Sticker recommendation service is not available'', [])
   \<and> prompt_unusable (member JNull (js ''prompt''))
   \<and> handleRecommend quiet_runtime
        \<lparr>req_method = ''POST'', searchParams = [], body_json = Some JNull\<rparr>
        \<lparr>AI = (), VECTORIZE = Some ()\<rparr>
       = (ErrorResponse 500 ''INTERNAL_ERROR'' ''An internal error occurred'',
          [ConsoleError TypeError])"
  by (simp add: prompt_unusable_def searchParams_get_def handleRecommend_def
        parsePostRequest_def internal_error_def createErrorResponse_def)

section \<open>A fractional topK\<close>

lemma five_halves_floor: "\<lfloor>5 / 2 :: rat\<rfloor> = 2"
  by (simp add: floor_eq_iff)

text \<open>
  Claim C2 fails on the code. The query form only yields integers of 1..20
  (\<open>parseGetRequest_topK_integer\<close>), but the JSON body \<open>{"prompt": "cat", "topK": 2.5}\<close>
  passes the test \<open>0 < topK \<le> 20\<close> and the searcher is called with 2.5, not an integer.
\<close>

theorem fractional_topK_reaches_search:
  "handleRecommend quiet_runtime
     \<lparr>req_method = ''POST'', searchParams = [],
      body_json = Some (JObj [(js ''prompt'', JStr (js ''cat'')),
                              (js ''topK'', JNum (Fin (5 / 2)))])\<rparr>
     \<lparr>AI = (), VECTORIZE = Some ()\<rparr>
    = (createSuccessResponse [] (js ''cat''),
       [SearchCall (js ''cat'') (JNum (Fin (5 / 2))) None])
   \<and> (5 / 2 :: rat) \<notin> \<int>"
proof -
  have "(5 / 2 :: rat) \<notin> \<int>"
  proof
    assume "(5 / 2 :: rat) \<in> \<int>"
    then obtain n :: int where n: "(5 / 2 :: rat) = of_int n"
      by (rule Ints_cases)
    then have "\<lfloor>5 / 2 :: rat\<rfloor> = n"
      by (simp only: floor_of_int)
    with five_halves_floor have "n = 2"
      by simp
    with n show False
      by simp
  qed
  then show ?thesis
    by (simp add: handleRecommend_def parsePostRequest_def js_def truthy_def
          trim_def trimStart_def trimEnd_def isWhiteSpace_def js_gt_def js_le_def
          recommend_def quiet_runtime_def)
qed

section \<open>excludeRecent of the wrong type\<close>


lemma parsePostRequest_excludeRecent:
  assumes "parsePostRequest cz request = Inr (Inr params)"
    and "body_json request = Some body"
  shows "excludeRecent params = member body (js ''excludeRecent'')"
  using assms
  by (auto simp: parsePostRequest_def Let_def split: if_splits option.splits sum.splits)





section \<open>The comma-separated list of the query form\<close>

lemma split_on_not_Nil: "split_on sep s \<noteq> []"
  by (induction s) (auto split: list.splits)

lemma join_with_Cons:
  "ys \<noteq> [] \<Longrightarrow> join_with sep (x # ys) = x @ sep # join_with sep ys"
  by (cases ys) simp_all

lemma join_split_on: "join_with sep (split_on sep s) = s"
proof (induction s)
  case Nil
  show ?case by simp
next
  case (Cons c cs)
  show ?case
  proof (cases "c = sep")
    case True
    with Cons show ?thesis
      by (simp add: join_with_Cons split_on_not_Nil)
  next
    case False
    obtain x xs where parts: "split_on sep cs = x # xs"
      using split_on_not_Nil [of sep cs] by (cases "split_on sep cs") auto
    with Cons have "join_with sep (x # xs) = cs"
      by simp
    then have "join_with sep ((c # x) # xs) = c # cs"
      by (cases xs) auto
    with False parts show ?thesis
      by simp
  qed
qed

lemma split_on_free: "\<forall>x \<in> set (split_on sep s). sep \<notin> set x"
  by (induction s) (auto split: list.splits)

lemma split_on_free_piece: "sep \<notin> set x \<Longrightarrow> split_on sep x = [x]"
  by (induction x) auto

lemma split_on_append:
  "sep \<notin> set x \<Longrightarrow> split_on sep (x @ sep # rest) = x # split_on sep rest"
  by (induction x) auto

text \<open>The pieces are the only way to read a text as separator-free elements.\<close>

lemma split_on_join:
  "es \<noteq> [] \<Longrightarrow> \<forall>x \<in> set es. sep \<notin> set x \<Longrightarrow> split_on sep (join_with sep es) = es"
proof (induction sep es rule: join_with.induct)
  case (1 sep)
  then show ?case by simp
next
  case (2 sep x)
  then show ?case by (simp add: split_on_free_piece)
next
  case (3 sep x y ys)
  then show ?case by (simp add: split_on_append)
qed

text \<open>What trimming leaves: the text without a white-space prefix and suffix.\<close>

lemma trim_decomposes:
  "\<exists>l r. s = l @ trim s @ r \<and> (\<forall>c \<in> set l. isWhiteSpace c) \<and> (\<forall>c \<in> set r. isWhiteSpace c)"
proof -
  let ?l = "takeWhile isWhiteSpace s"
  let ?m = "dropWhile isWhiteSpace s"
  let ?r = "rev (takeWhile isWhiteSpace (rev ?m))"
  have "?m = trim s @ ?r"
    unfolding trim_def trimStart_def trimEnd_def
    by (metis rev_append rev_rev_ident takeWhile_dropWhile_id)
  then have "s = ?l @ trim s @ ?r"
    by (metis takeWhile_dropWhile_id)
  moreover have "\<forall>c \<in> set ?l. isWhiteSpace c"
    by (auto dest: set_takeWhileD)
  moreover have "\<forall>c \<in> set ?r. isWhiteSpace c"
    by (auto dest: set_takeWhileD)
  ultimately show ?thesis
    by blast
qed

lemma trim_ends:
  "trim s \<noteq> [] \<Longrightarrow> \<not> isWhiteSpace (hd (trim s)) \<and> \<not> isWhiteSpace (last (trim s))"
proof -
  assume ne: "trim s \<noteq> []"
  let ?m = "dropWhile isWhiteSpace s"
  let ?d = "dropWhile isWhiteSpace (rev ?m)"
  have t: "trim s = rev ?d"
    by (simp add: trim_def trimStart_def trimEnd_def)
  with ne have d: "?d \<noteq> []"
    by simp
  then have "\<not> isWhiteSpace (hd ?d)"
    by (rule hd_dropWhile)
  with d t have last_ok: "\<not> isWhiteSpace (last (trim s))"
    by (simp add: last_rev)
  from d have m: "?m \<noteq> []"
    by (metis dropWhile.simps(1) rev.simps(1))
  then have hd_m: "\<not> isWhiteSpace (hd ?m)"
    by (rule hd_dropWhile)
  obtain r where "?m = trim s @ r"
    using t by (metis rev_append rev_rev_ident takeWhile_dropWhile_id)
  with ne have "hd ?m = hd (trim s)"
    by simp
  with hd_m last_ok show ?thesis
    by simp
qed

lemma parseGetRequest_exclude:
  assumes "parseGetRequest request = Inr params"
  shows "excludeRecent params =
           (case searchParams_get request ''excludeRecent'' of
              None \<Rightarrow> None
            | Some e \<Rightarrow>
                if e = [] then None
                else Some (JArr (map JStr
                       (filter (\<lambda>s. s \<noteq> []) (map trim (split_on 0x2C e))))))"
  using assms
  by (auto simp: parseGetRequest_def Let_def split: option.splits if_splits)

text \<open>
  Claim C8, as amended. For a GET request that parses: when the \<open>excludeRecent\<close> parameter
  is absent or empty, no list is produced; when it is present and not empty, the list is
  that of the comma-separated elements of the parameter (the comma-free texts that, joined
  by commas, give the parameter back), each trimmed, the empty ones dropped, in order.
\<close>

theorem excludeRecent_query_list:
  assumes "parseGetRequest request = Inr params"
  shows "(searchParams_get request ''excludeRecent'' = None
            \<or> searchParams_get request ''excludeRecent'' = Some []
          \<longrightarrow> excludeRecent params = None)
       \<and> (\<forall>e. searchParams_get request ''excludeRecent'' = Some e \<and> e \<noteq> [] \<longrightarrow>
            (\<exists>es. es \<noteq> [] \<and> join_with 0x2C es = e \<and> (\<forall>x \<in> set es. 0x2C \<notin> set x)
               \<and> excludeRecent params
                   = Some (JArr (map JStr (filter (\<lambda>s. s \<noteq> []) (map trim es))))))"
proof (intro conjI impI allI)
  assume "searchParams_get request ''excludeRecent'' = None
            \<or> searchParams_get request ''excludeRecent'' = Some []"
  then show "excludeRecent params = None"
    by (auto simp: parseGetRequest_exclude [OF assms])
next
  fix e
  assume "searchParams_get request ''excludeRecent'' = Some e \<and> e \<noteq> []"
  then have "excludeRecent params
      = Some (JArr (map JStr (filter (\<lambda>s. s \<noteq> []) (map trim (split_on 0x2C e)))))"
    by (simp add: parseGetRequest_exclude [OF assms])
  moreover have "split_on 0x2C e \<noteq> []" and "join_with 0x2C (split_on 0x2C e) = e"
    and "\<forall>x \<in> set (split_on 0x2C e). 0x2C \<notin> set x"
    by (rule split_on_not_Nil, rule join_split_on, rule split_on_free)
  ultimately show "\<exists>es. es \<noteq> [] \<and> join_with 0x2C es = e \<and> (\<forall>x \<in> set es. 0x2C \<notin> set x)
      \<and> excludeRecent params = Some (JArr (map JStr (filter (\<lambda>s. s \<noteq> []) (map trim es))))"
    by blast
qed


theorem excludeRecent_query_list_witness:
  "parseGetRequest
     \<lparr>req_method = ''GET'',
      searchParams = [(js ''prompt'', js ''cat''), (js ''excludeRecent'', js '' a, ,b'')],
      body_json = None\<rparr>
    = Inr \<lparr>prompt = js ''cat'', topK = JNum (Fin 5),
           excludeRecent = Some (JArr [JStr (js ''a''), JStr (js ''b'')])\<rparr>
   \<and> join_with 0x2C [js '' a'', js '' '', js ''b''] = js '' a, ,b''
   \<and> filter (\<lambda>s. s \<noteq> []) (map trim [js '' a'', js '' '', js ''b'']) = [js ''a'', js ''b'']"
proof -
  let ?req = "\<lparr>req_method = ''GET'',
               searchParams = [(js ''prompt'', js ''cat''),
                               (js ''excludeRecent'', js '' a, ,b'')],
               body_json = None\<rparr>"
  let ?params = "\<lparr>prompt = js ''cat'', topK = JNum (Fin 5),
                  excludeRecent = Some (JArr [JStr (js ''a''), JStr (js ''b'')])\<rparr>"
  have parsed: "parseGetRequest ?req = Inr ?params"
    by (simp add: parseGetRequest_def searchParams_get_def js_def trim_def trimStart_def
          trimEnd_def isWhiteSpace_def)
  have given: "searchParams_get ?req ''excludeRecent'' = Some (js '' a, ,b'')"
    and filled: "js '' a, ,b'' \<noteq> []"
    by (simp_all add: searchParams_get_def js_def)
  from excludeRecent_query_list [OF parsed] given filled
  obtain es where "es \<noteq> []" and "join_with 0x2C es = js '' a, ,b''"
    and "\<forall>x \<in> set es. 0x2C \<notin> set x"
    and "excludeRecent ?params = Some (JArr (map JStr (filter (\<lambda>s. s \<noteq> []) (map trim es))))"
    by blast
  then have "es = split_on 0x2C (js '' a, ,b'')"
    using split_on_join [of es "0x2C"] by simp
  moreover have "split_on 0x2C (js '' a, ,b'') = [js '' a'', js '' '', js ''b'']"
    by (simp add: js_def)
  moreover have "filter (\<lambda>s. s \<noteq> []) (map trim [js '' a'', js '' '', js ''b''])
                   = [js ''a'', js ''b'']"
    by (simp add: js_def trim_def trimStart_def trimEnd_def isWhiteSpace_def)
  ultimately show ?thesis
    using parsed \<open>join_with 0x2C es = js '' a, ,b''\<close> by simp
qed

text \<open>
  Claim C8 as first stated gave the list for every request that has the parameter. For
  \<open>?prompt=cat&excludeRecent=\<close> the parameter is there, its elements trimmed and
  filtered are the empty list, and the parser produces no list at all.
\<close>

theorem excludeRecent_query_list_counterexample:
  "searchParams_get
     \<lparr>req_method = ''GET'',
      searchParams = [(js ''prompt'', js ''cat''), (js ''excludeRecent'', [])],
      body_json = None\<rparr> ''excludeRecent'' = Some []
   \<and> parseGetRequest
     \<lparr>req_method = ''GET'',
      searchParams = [(js ''prompt'', js ''cat''), (js ''excludeRecent'', [])],
      body_json = None\<rparr>
    = Inr \<lparr>prompt = js ''cat'', topK = JNum (Fin 5), excludeRecent = None\<rparr>
   \<and> filter (\<lambda>s. s \<noteq> []) (map trim (split_on 0x2C [])) = []
   \<and> None \<noteq> Some (JArr (map JStr (filter (\<lambda>s. s \<noteq> []) (map trim (split_on 0x2C [])))))"
  by (simp add: parseGetRequest_def searchParams_get_def js_def trim_def trimStart_def
        trimEnd_def isWhiteSpace_def)

section \<open>Two runs\<close>

lemma recommend_first_call:
  "(\<not> isArray (excludeRecent params) \<longrightarrow>
      SearchCall (prompt params) (topK params) None \<in> set (snd (recommend rt ai v params)))
   \<and> (\<forall>ms. excludeRecent params = Some (JArr ms) \<longrightarrow>
      ExtractCall ms 10 \<in> set (snd (recommend rt ai v params))
      \<and> (\<forall>ids. extract_fn rt ms 10 = Inr ids \<longrightarrow>
            SearchCall (prompt params) (topK params) (Some ids)
              \<in> set (snd (recommend rt ai v params))))"
  by (auto simp: recommend_no_array recommend_array internal_error_def split: sum.splits)

lemma recommend_agree:
  assumes ex: "\<forall>ms n. ExtractCall ms n \<in> set (snd (recommend rt1 a1 v1 params)) \<longrightarrow>
                 extract_fn rt2 ms n = extract_fn rt1 ms n"
    and se: "\<forall>p k ids. SearchCall p k ids \<in> set (snd (recommend rt1 a1 v1 params)) \<longrightarrow>
                 search_fn rt2 a2 v2 p k ids = search_fn rt1 a1 v1 p k ids"
  shows "recommend rt2 a2 v2 params = recommend rt1 a1 v1 params"
proof (cases "isArray (excludeRecent params)")
  case False
  with recommend_first_call [of params rt1 a1 v1] se
  have "search_fn rt2 a2 v2 (prompt params) (topK params) None
          = search_fn rt1 a1 v1 (prompt params) (topK params) None"
    by blast
  with False show ?thesis
    by (simp add: recommend_no_array)
next
  case True
  then obtain ms where ms: "excludeRecent params = Some (JArr ms)"
    by (auto simp: isArray_iff)
  with recommend_first_call [of params rt1 a1 v1] ex
  have same_ex: "extract_fn rt2 ms 10 = extract_fn rt1 ms 10"
    by blast
  show ?thesis
  proof (cases "extract_fn rt1 ms 10")
    case (Inl e)
    with ms same_ex show ?thesis
      by (simp add: recommend_array)
  next
    case (Inr ids)
    with ms recommend_first_call [of params rt1 a1 v1] se
    have "search_fn rt2 a2 v2 (prompt params) (topK params) (Some ids)
            = search_fn rt1 a1 v1 (prompt params) (topK params) (Some ids)"
      by blast
    with ms same_ex Inr show ?thesis
      by (simp add: recommend_array)
  qed
qed

text \<open>
  Claim C9. Take two runs of the handler on the same request, under the same coercion,
  with the vector-search binding present in both or absent in both. If every call the
  first run makes to the extractor and to the searcher is answered in the second as it was
  in the first, the two runs end in the same response, the stickers in the same order, and
  make the same calls.
\<close>

theorem same_request_same_response:
  assumes engine: "coerce rt2 = coerce rt1"
    and binding: "(VECTORIZE env1 = None) = (VECTORIZE env2 = None)"
    and ex: "\<forall>ms n. ExtractCall ms n \<in> set (snd (handleRecommend rt1 request env1)) \<longrightarrow>
               extract_fn rt2 ms n = extract_fn rt1 ms n"
    and se: "\<forall>p k ids v1 v2.
               SearchCall p k ids \<in> set (snd (handleRecommend rt1 request env1)) \<longrightarrow>
               VECTORIZE env1 = Some v1 \<longrightarrow> VECTORIZE env2 = Some v2 \<longrightarrow>
               search_fn rt2 (AI env2) v2 p k ids = search_fn rt1 (AI env1) v1 p k ids"
  shows "handleRecommend rt2 request env2 = handleRecommend rt1 request env1"
proof (cases "VECTORIZE env1")
  case None
  with binding have "VECTORIZE env2 = None"
    by simp
  with None show ?thesis
    by (simp add: handleRecommend_unavailable)
next
  case (Some v1)
  with binding obtain v2 where v2: "VECTORIZE env2 = Some v2"
    by (cases "VECTORIZE env2") auto
  have tail: "recommend rt2 (AI env2) v2 params = recommend rt1 (AI env1) v1 params"
    if "handleRecommend rt1 request env1 = recommend rt1 (AI env1) v1 params" for params
  proof (rule recommend_agree)
    from ex that
    show "\<forall>ms n. ExtractCall ms n \<in> set (snd (recommend rt1 (AI env1) v1 params)) \<longrightarrow>
            extract_fn rt2 ms n = extract_fn rt1 ms n"
      by simp
    from se that Some v2
    show "\<forall>p k ids. SearchCall p k ids \<in> set (snd (recommend rt1 (AI env1) v1 params)) \<longrightarrow>
            search_fn rt2 (AI env2) v2 p k ids = search_fn rt1 (AI env1) v1 p k ids"
      by simp
  qed
  consider (get) "req_method request = ''GET''" | (post) "req_method request = ''POST''"
    | (other) "req_method request \<noteq> ''GET''" "req_method request \<noteq> ''POST''"
    by blast
  then show ?thesis
  proof cases
    case get
    with Some v2 tail show ?thesis
      by (cases "parseGetRequest request") (simp_all add: handleRecommend_GET)
  next
    case post
    show ?thesis
    proof (cases "parsePostRequest (coerce rt1) request")
      case (Inl e)
      with Some v2 post engine show ?thesis
        by (simp add: handleRecommend_POST)
    next
      case (Inr r)
      with Some v2 post engine tail show ?thesis
        by (cases r) (simp_all add: handleRecommend_POST)
    qed
  next
    case other
    with Some v2 show ?thesis
      by (simp add: handleRecommend_other_method)
  qed
qed


theorem same_request_same_response_witness:
  "coerce picky_runtime = coerce quiet_runtime
   \<and> extract_fn picky_runtime [] 10 \<noteq> extract_fn quiet_runtime [] 10
   \<and> snd (handleRecommend quiet_runtime
        \<lparr>req_method = ''GET'', searchParams = [(js ''prompt'', js ''cat'')],
         body_json = None\<rparr>
        \<lparr>AI = (), VECTORIZE = Some ()\<rparr>) = [SearchCall (js ''cat'') (JNum (Fin 5)) None]
   \<and> handleRecommend picky_runtime
        \<lparr>req_method = ''GET'', searchParams = [(js ''prompt'', js ''cat'')],
         body_json = None\<rparr>
        \<lparr>AI = (), VECTORIZE = Some ()\<rparr>
     = handleRecommend quiet_runtime
        \<lparr>req_method = ''GET'', searchParams = [(js ''prompt'', js ''cat'')],
         body_json = None\<rparr>
        \<lparr>AI = (), VECTORIZE = Some ()\<rparr>"
proof -
  let ?env = "\<lparr>AI = (), VECTORIZE = Some ()\<rparr>"
  let ?req = "\<lparr>req_method = ''GET'', searchParams = [(js ''prompt'', js ''cat'')],
               body_json = None\<rparr>"
  have engine: "coerce picky_runtime = coerce quiet_runtime"
    by (simp add: picky_runtime_def quiet_runtime_def)
  have differ: "extract_fn picky_runtime [] 10 \<noteq> extract_fn quiet_runtime [] 10"
    by (simp add: picky_runtime_def quiet_runtime_def)
  have trace: "snd (handleRecommend quiet_runtime ?req ?env)
                 = [SearchCall (js ''cat'') (JNum (Fin 5)) None]"
    by (simp add: handleRecommend_def parseGetRequest_def searchParams_get_def js_def
          trim_def trimStart_def trimEnd_def isWhiteSpace_def
          recommend_def truthy_def quiet_runtime_def createSuccessResponse_def)
  have "handleRecommend picky_runtime ?req ?env = handleRecommend quiet_runtime ?req ?env"
  proof (rule same_request_same_response [OF engine])
    show "(VECTORIZE ?env = None) = (VECTORIZE ?env = None)"
      by simp
    show "\<forall>ms n. ExtractCall ms n \<in> set (snd (handleRecommend quiet_runtime ?req ?env)) \<longrightarrow>
            extract_fn picky_runtime ms n = extract_fn quiet_runtime ms n"
      unfolding trace by simp
    show "\<forall>p k ids v1 v2.
            SearchCall p k ids \<in> set (snd (handleRecommend quiet_runtime ?req ?env)) \<longrightarrow>
            VECTORIZE ?env = Some v1 \<longrightarrow> VECTORIZE ?env = Some v2 \<longrightarrow>
            search_fn picky_runtime (AI ?env) v2 p k ids
              = search_fn quiet_runtime (AI ?env) v1 p k ids"
      unfolding trace by (simp add: picky_runtime_def quiet_runtime_def)
  qed
  with engine differ trace show ?thesis
    by simp
qed

section \<open>Exclusion\<close>

lemma searchStickersWithScores_excludes:
  assumes "searchStickersWithScores ai vec p k (Some ids) = Inr results"
  shows "\<forall>s \<in> set results. assetbundleName s \<notin> set ids"
  using assms
  by (auto simp: searchStickersWithScores_def split: sum.splits dest!: in_set_takeD)

lemma recommend_excludes:
  assumes "search_fn rt = searchStickersWithScores"
    and "SearchCall p k (Some ids) \<in> set (snd (recommend rt ai v params))"
  shows "\<forall>s \<in> set (response_stickers (fst (recommend rt ai v params))).
           assetbundleName s \<notin> set ids"
proof (cases "isArray (excludeRecent params)")
  case False
  with assms(2) show ?thesis
    by (auto simp: recommend_no_array internal_error_def split: sum.splits)
next
  case True
  then obtain ms where ms: "excludeRecent params = Some (JArr ms)"
    by (auto simp: isArray_iff)
  show ?thesis
  proof (cases "extract_fn rt ms 10")
    case (Inl e)
    with ms assms(2) show ?thesis
      by (simp add: recommend_array internal_error_def)
  next
    case (Inr found)
    show ?thesis
    proof (cases "search_fn rt ai v (prompt params) (topK params) (Some found)")
      case (Inl e)
      with ms Inr show ?thesis
        by (simp add: recommend_array internal_error_def createErrorResponse_def)
    next
      case results: (Inr results)
      with ms Inr assms(2) have "ids = found"
        by (simp add: recommend_array)
      with results assms(1) have "\<forall>s \<in> set results. assetbundleName s \<notin> set ids"
        using searchStickersWithScores_excludes by metis
      with ms Inr results show ?thesis
        by (simp add: recommend_array createSuccessResponse_def)
    qed
  qed
qed

text \<open>
  Claim C7, with the searcher of the contract. Take a request that carries an exclusion
  list: a GET request whose \<open>excludeRecent\<close> parameter is not empty, \<open>ms\<close> being its
  elements, or a POST request whose body has the array \<open>ms\<close> as \<open>excludeRecent\<close>; let it
  parse, and let the extractor derive the identifiers \<open>ids\<close> from \<open>ms\<close> with the bound 10.
  Then the parsed parameters hold \<open>ms\<close>, the handler's first two calls are that extraction
  and the search with exactly \<open>ids\<close> as exclusion set, and no sticker of the response has
  an \<open>assetbundleName\<close> in \<open>ids\<close>.
\<close>

theorem excluded_never_returned:
  assumes contract: "search_fn rt = searchStickersWithScores"
    and binding: "VECTORIZE env = Some v"
    and given:
      "req_method request = ''GET'' \<and> parseGetRequest request = Inr params
         \<and> searchParams_get request ''excludeRecent'' = Some e \<and> e \<noteq> []
         \<and> ms = map JStr (filter (\<lambda>s. s \<noteq> []) (map trim (split_on 0x2C e)))
       \<or> req_method request = ''POST''
         \<and> parsePostRequest (coerce rt) request = Inr (Inr params)
         \<and> body_json request = Some body
         \<and> member body (js ''excludeRecent'') = Some (JArr ms)"
    and derived: "extract_fn rt ms 10 = Inr ids"
  shows "excludeRecent params = Some (JArr ms)
         \<and> take 2 (snd (handleRecommend rt request env))
             = [ExtractCall ms 10, SearchCall (prompt params) (topK params) (Some ids)]
         \<and> (\<forall>s \<in> set (response_stickers (fst (handleRecommend rt request env))).
               assetbundleName s \<notin> set ids)"
proof -
  from given have kept: "excludeRecent params = Some (JArr ms)"
  proof (elim disjE conjE)
    assume "parseGetRequest request = Inr params"
      and "searchParams_get request ''excludeRecent'' = Some e" and "e \<noteq> []"
      and "ms = map JStr (filter (\<lambda>s. s \<noteq> []) (map trim (split_on 0x2C e)))"
    then show ?thesis
      by (simp add: parseGetRequest_exclude)
  next
    assume "parsePostRequest (coerce rt) request = Inr (Inr params)"
      and "body_json request = Some body"
      and "member body (js ''excludeRecent'') = Some (JArr ms)"
    then show ?thesis
      by (simp add: parsePostRequest_excludeRecent)
  qed
  from given binding
  have run: "handleRecommend rt request env = recommend rt (AI env) v params"
    by (auto simp: handleRecommend_GET handleRecommend_POST)
  have trace: "take 2 (snd (recommend rt (AI env) v params))
                 = [ExtractCall ms 10, SearchCall (prompt params) (topK params) (Some ids)]"
    using kept derived
    by (simp add: recommend_array internal_error_def split: sum.splits)
  then have "SearchCall (prompt params) (topK params) (Some ids)
               \<in> set (take 2 (snd (recommend rt (AI env) v params)))"
    by simp
  then have "SearchCall (prompt params) (topK params) (Some ids)
               \<in> set (snd (recommend rt (AI env) v params))"
    by (rule in_set_takeD)
  with contract
  have "\<forall>s \<in> set (response_stickers (fst (recommend rt (AI env) v params))).
          assetbundleName s \<notin> set ids"
    by (rule recommend_excludes)
  with kept run trace show ?thesis
    by simp
qed

theorem excluded_never_returned_witness:
  "search_fn contract_runtime = searchStickersWithScores
   \<and> parsePostRequest (coerce contract_runtime)
        \<lparr>req_method = ''POST'', searchParams = [],
         body_json = Some (JObj [(js ''prompt'', JStr (js ''cake'')),
                                 (js ''excludeRecent'', JArr [JStr (js ''stickerA'')])])\<rparr>
       = Inr (Inr \<lparr>prompt = js ''cake'', topK = JNum (Fin 5),
                   excludeRecent = Some (JArr [JStr (js ''stickerA'')])\<rparr>)
   \<and> extract_fn contract_runtime [JStr (js ''stickerA'')] 10 = Inr [js ''stickerA'']
   \<and> handleRecommend contract_runtime
        \<lparr>req_method = ''POST'', searchParams = [],
         body_json = Some (JObj [(js ''prompt'', JStr (js ''cake'')),
                                 (js ''excludeRecent'', JArr [JStr (js ''stickerA'')])])\<rparr>
        demo_env
       = (createSuccessResponse
            [\<lparr>assetbundleName = js ''stickerB'', name = js ''Candle'', score = 4 / 5\<rparr>,
             \<lparr>assetbundleName = js ''stickerC'', name = js ''Gift'', score = 1 / 2\<rparr>]
            (js ''cake''),
          [ExtractCall [JStr (js ''stickerA'')] 10,
           SearchCall (js ''cake'') (JNum (Fin 5)) (Some [js ''stickerA''])])
   \<and> js ''stickerA'' \<notin> assetbundleName ` set (response_stickers (fst
          (handleRecommend contract_runtime
            \<lparr>req_method = ''POST'', searchParams = [],
             body_json = Some (JObj [(js ''prompt'', JStr (js ''cake'')),
                                     (js ''excludeRecent'', JArr [JStr (js ''stickerA'')])])\<rparr>
            demo_env)))
   \<and> js ''stickerA'' \<notin> assetbundleName ` set (response_stickers (fst
          (handleRecommend contract_runtime
            \<lparr>req_method = ''GET'',
             searchParams = [(js ''prompt'', js ''cake''),
                             (js ''excludeRecent'', js ''stickerA'')],
             body_json = None\<rparr> demo_env)))"
proof -
  let ?body = "JObj [(js ''prompt'', JStr (js ''cake'')),
                     (js ''excludeRecent'', JArr [JStr (js ''stickerA'')])]"
  let ?post = "\<lparr>req_method = ''POST'', searchParams = [], body_json = Some ?body\<rparr>"
  let ?get = "\<lparr>req_method = ''GET'',
               searchParams = [(js ''prompt'', js ''cake''),
                               (js ''excludeRecent'', js ''stickerA'')],
               body_json = None\<rparr>"
  let ?params = "\<lparr>prompt = js ''cake'', topK = JNum (Fin 5),
                  excludeRecent = Some (JArr [JStr (js ''stickerA'')])\<rparr>"
  have contract: "search_fn contract_runtime = searchStickersWithScores"
    by (simp add: contract_runtime_def)
  have binding: "VECTORIZE demo_env = Some demo_store"
    by (simp add: demo_env_def)
  have post: "parsePostRequest (coerce contract_runtime) ?post = Inr (Inr ?params)"
    by (simp add: parsePostRequest_def js_def truthy_def trim_def trimStart_def trimEnd_def
          isWhiteSpace_def)
  have get: "parseGetRequest ?get = Inr ?params"
    by (simp add: parseGetRequest_def searchParams_get_def js_def trim_def trimStart_def
          trimEnd_def isWhiteSpace_def)
  have listed: "searchParams_get ?get ''excludeRecent'' = Some (js ''stickerA'')"
    and filled: "js ''stickerA'' \<noteq> []"
    and pieces: "[JStr (js ''stickerA'')]
        = map JStr (filter (\<lambda>s. s \<noteq> []) (map trim (split_on 0x2C (js ''stickerA''))))"
    by (simp_all add: searchParams_get_def js_def trim_def trimStart_def trimEnd_def
          isWhiteSpace_def)
  have member: "member ?body (js ''excludeRecent'') = Some (JArr [JStr (js ''stickerA'')])"
    by (simp add: js_def)
  have found: "extract_fn contract_runtime [JStr (js ''stickerA'')] 10 = Inr [js ''stickerA'']"
    by (simp add: contract_runtime_def)
  have count: "topK_count (JNum (Fin 5)) = 5"
    by (simp add: topK_count_def)
  have results: "searchStickersWithScores (AI demo_env) demo_store (js ''cake'')
                   (JNum (Fin 5)) (Some [js ''stickerA''])
      = Inr [\<lparr>assetbundleName = js ''stickerB'', name = js ''Candle'', score = 4 / 5\<rparr>,
             \<lparr>assetbundleName = js ''stickerC'', name = js ''Gift'', score = 1 / 2\<rparr>]"
    by (simp add: searchStickersWithScores_def count demo_env_def demo_store_def js_def)
  have "req_method ?post = ''POST''"
    by simp
  with binding post have "handleRecommend contract_runtime ?post demo_env =
      recommend contract_runtime (AI demo_env) demo_store ?params"
    by (simp only: handleRecommend_POST sum.case)
  then have run: "handleRecommend contract_runtime ?post demo_env =
      (createSuccessResponse
         [\<lparr>assetbundleName = js ''stickerB'', name = js ''Candle'', score = 4 / 5\<rparr>,
          \<lparr>assetbundleName = js ''stickerC'', name = js ''Gift'', score = 1 / 2\<rparr>]
         (js ''cake''),
       [ExtractCall [JStr (js ''stickerA'')] 10,
        SearchCall (js ''cake'') (JNum (Fin 5)) (Some [js ''stickerA''])])"
    by (simp add: recommend_array found contract results)
  have "js ''stickerA'' \<notin> assetbundleName ` set (response_stickers (fst
          (handleRecommend contract_runtime ?post demo_env)))"
    using excluded_never_returned [OF contract binding _ found,
        of ?post ?params "[]" ?body] post member
    by auto
  moreover
  have "js ''stickerA'' \<notin> assetbundleName ` set (response_stickers (fst
          (handleRecommend contract_runtime ?get demo_env)))"
    using excluded_never_returned [OF contract binding _ found,
        of ?get ?params "js ''stickerA''" JNull] get listed filled pieces
    by auto
  ultimately show ?thesis
    using contract post found run by simp
qed

end
